theory Spec2Isabelle
  imports Complex_Main "HOL-Library.Multiset"
begin

section \<open>JavaScript strings and values\<close>

text \<open>
  A JavaScript string is modelled as a \<^typ>\<open>string\<close>; a character outside ASCII is
  written as its UTF-8 bytes. A value that may be \<^verbatim>\<open>undefined\<close> is an option.
\<close>

text \<open>\<^verbatim>\<open>v || d\<close> on a string that may be undefined: the empty string is falsy.\<close>

definition or_else :: "string option \<Rightarrow> string \<Rightarrow> string" where
  "or_else v d = (case v of None \<Rightarrow> d | Some s \<Rightarrow> if s = [] then d else s)"

text \<open>\<^verbatim>\<open>s.split(sep)\<close> for a separator of one character: the fields between separators.\<close>

fun str_split :: "char \<Rightarrow> string \<Rightarrow> string list" where
  "str_split sep [] = [[]]"
| "str_split sep (c # cs) =
     (if c = sep then [] # str_split sep cs
      else (case str_split sep cs of
              [] \<Rightarrow> [[c]]
            | f # fs \<Rightarrow> (c # f) # fs))"

text \<open>\<^verbatim>\<open>xs[i]\<close>: an index past the end reads \<^verbatim>\<open>undefined\<close>.\<close>

definition at_index :: "'a list \<Rightarrow> nat \<Rightarrow> 'a option" where
  "at_index xs i = (if i < length xs then Some (xs ! i) else None)"

text \<open>A thrown value, with its \<^verbatim>\<open>message\<close> property.\<close>

datatype js_error = Error (message: "string option")

text \<open>What \<^verbatim>\<open>JSON.parse\<close> returns. Numbers are exact rationals here.\<close>

datatype json =
    JNull
  | JBool bool
  | JNumber rat
  | JString string
  | JArray "json list"
  | JObject "(string \<times> json) list"

section \<open>services/geminiService.ts\<close>

subsection \<open>The system instruction\<close>

definition en_dash :: string where
  "en_dash = [CHR 0xE2, CHR 0x80, CHR 0x93]"

definition arrow :: string where
  "arrow = [CHR 0xE2, CHR 0x86, CHR 0x92]"

definition line :: "string \<Rightarrow> string" where
  "line s = s @ [CHR 0x0A]"

text \<open>The instruction up to and including the line \<^verbatim>\<open>SCORING SCALE:\<close>.\<close>

definition SYSTEM_INSTRUCTION_head :: string where
  "SYSTEM_INSTRUCTION_head = concat (map line
    [''You are MicroScan Ocean, an expert AI system specialized in microplastic detection, classification, and environmental health risk analysis.'',
     ''You combine the knowledge of a marine biologist, environmental chemist, and public health scientist.'',
     '''',
     ''Your goal is to analyze microscope images of filtered water samples to provide a detailed report. '',
     ''Since you are analyzing images without external metadata, you must:'',
     ''1. Infer the likely environment (ocean, river, etc.) from the visual characteristics of the sample if possible, or provide a generalized analysis.'',
     ''2. Estimate magnification and particle sizes based on standard microscope visual cues.'',
     ''3. Detect and count microplastic particles (fibers, fragments, films, beads, foam).'',
     ''4. Classify them by type, color, size, and percentage.'',
     ''5. Calculate severity (estimate particles/L based on a standard sample volume of 1L if not visually apparent) and score (1-10).'',
     ''6. Attribute likely pollution sources based on particle morphology.'',
     ''7. Assess marine and human health risks.'',
     ''8. Provide remediation recommendations.'',
     ''9. Generate a full summary report.'',
     '''',
     ''Tone: Scientifically precise but plain language.'',
     ''If the image is poor or inconclusive, flag it.'',
     ''If no plastics are found, report CLEAN.'',
     ''Always show your reasoning for size and count estimates.'',
     '''',
     ''SCORING SCALE:''])"

text \<open>The five lines of the scoring scale, as written.\<close>

definition SYSTEM_INSTRUCTION_scale :: string where
  "SYSTEM_INSTRUCTION_scale = concat (map line
    [''- 0'' @ en_dash @ ''10 particles/L '' @ arrow @ '' CLEAN (Score 1/10)'',
     ''- 11'' @ en_dash @ ''50 particles/L '' @ arrow @ '' LOW CONTAMINATION (Score 3/10)'',
     ''- 51'' @ en_dash @ ''150 particles/L '' @ arrow @ '' MODERATE CONTAMINATION (Score 5/10)'',
     ''- 151'' @ en_dash @ ''300 particles/L '' @ arrow @ '' HIGH CONTAMINATION (Score 7/10)'',
     ''- 300+ particles/L '' @ arrow @ '' CRITICAL CONTAMINATION (Score 10/10)''])"

definition SYSTEM_INSTRUCTION :: string where
  "SYSTEM_INSTRUCTION = SYSTEM_INSTRUCTION_head @ SYSTEM_INSTRUCTION_scale"

subsection \<open>The request\<close>

text \<open>The schema language of the SDK, as far as the source uses it. An object schema has
  its properties and, when the source gives one, its \<^verbatim>\<open>required\<close> list.\<close>

datatype schema =
    STRING
  | NUMBER
  | ARRAY schema
  | OBJECT "(string \<times> schema) list" "string list option"

datatype part =
    InlineData (mimeType: string) (data: "string option")
  | TextPart string

record generation_config =
  systemInstruction :: string
  responseMimeType :: string
  responseSchema :: schema

record generate_params =
  model :: string
  parts :: "part list"
  config :: generation_config

record response =
  response_text :: "string option"

definition prompt :: string where
  "prompt = [CHR 0x0A] @ concat (map line
    [''    Please analyze the attached microscope image(s) of a water sample.'',
     ''    Identify any microplastics present. '',
     ''    Infer the sample context (likely water source, magnification) from visual evidence.'',
     ''    Provide a structured JSON response according to the schema.'']) @ ''  ''"

definition analysis_schema :: schema where
  "analysis_schema = OBJECT
    [(''reportId'', STRING),
     (''analysisDate'', STRING),
     (''detection'', OBJECT
        [(''totalCount'', NUMBER),
         (''confidence'', STRING),
         (''reasoning'', STRING)]
        (Some [''totalCount'', ''confidence'', ''reasoning''])),
     (''classification'', ARRAY (OBJECT
        [(''type'', STRING),
         (''count'', NUMBER),
         (''colors'', ARRAY STRING),
         (''sizeRange'', STRING),
         (''percentage'', NUMBER)]
        None)),
     (''severity'', OBJECT
        [(''particlesPerLiter'', NUMBER),
         (''score'', NUMBER),
         (''level'', STRING),
         (''calculation'', STRING)]
        None),
     (''sources'', ARRAY (OBJECT
        [(''source'', STRING),
         (''confidence'', NUMBER),
         (''reasoning'', STRING)]
        None)),
     (''healthRisk'', OBJECT
        [(''marineRisk'', STRING),
         (''humanRiskLevel'', STRING),
         (''humanRiskSummary'', STRING),
         (''highestRiskTypes'', ARRAY STRING),
         (''healthEffects'', STRING),
         (''vulnerablePopulations'', STRING)]
        None),
     (''remediation'', OBJECT
        [(''immediate'', ARRAY STRING),
         (''policy'', ARRAY STRING),
         (''community'', ARRAY STRING)]
        None),
     (''fullReportMarkdown'', STRING)]
    (Some [''reportId'', ''analysisDate'', ''detection'', ''classification'', ''severity'',
           ''sources'', ''healthRisk'', ''remediation'', ''fullReportMarkdown''])"

definition imageParts :: "string list \<Rightarrow> part list" where
  "imageParts images =
     map (\<lambda>img. InlineData ''image/jpeg'' (at_index (str_split CHR '','' img) 1)) images"

text \<open>The argument of \<^verbatim>\<open>ai.models.generateContent\<close>.\<close>

definition analyzeSample_params :: "string list \<Rightarrow> generate_params" where
  "analyzeSample_params images =
     \<lparr>model = ''gemini-3-flash-preview'',
      parts = imageParts images @ [TextPart prompt],
      config = \<lparr>systemInstruction = SYSTEM_INSTRUCTION,
                responseMimeType = ''application/json'',
                responseSchema = analysis_schema\<rparr>\<rparr>"

subsection \<open>The environment of a call\<close>

text \<open>
  What exists outside one invocation: the process environment variable the function
  reads, and the calls made so far, in order. The remote model and \<^verbatim>\<open>JSON.parse\<close> are not
  code of this repository and are parameters of \<open>analyzeSample\<close>: \<open>generateContent\<close> gets
  the API key the client was built with and the request, and answers or throws.

  A call of \<open>analyzeSample\<close> is recorded with its argument. The declared type of the
  argument is a list of strings; types are erased at run time, and a caller may pass a
  list with a \<^verbatim>\<open>null\<close> entry: such a call is recorded with its entries, \<open>None\<close> for
  \<^verbatim>\<open>null\<close>.
\<close>

datatype event =
    Call_analyzeSample "string list"
  | Call_analyzeSample_with_null "string option list"
  | Call_generateContent string generate_params

record world =
  GEMINI_API_KEY :: "string option"
  trace :: "event list"

definition analyzeSample ::
  "(string \<Rightarrow> generate_params \<Rightarrow> js_error + response) \<Rightarrow> (string \<Rightarrow> js_error + json) \<Rightarrow>
   world \<Rightarrow> string list \<Rightarrow> (js_error + json) \<times> world" where
  "analyzeSample generateContent JSON_parse w images =
     (let apiKey = or_else (GEMINI_API_KEY w) '''';
          params = analyzeSample_params images;
          w' = w\<lparr>trace := trace w @ [Call_analyzeSample images, Call_generateContent apiKey params]\<rparr>
      in case generateContent apiKey params of
           Inl err \<Rightarrow> (Inl err, w')
         | Inr response \<Rightarrow> (JSON_parse (or_else (response_text response) ''{}''), w'))"

text \<open>
  The call \<^verbatim>\<open>analyzeSample(images)\<close> on the values a caller holds at run time, each a
  string or \<^verbatim>\<open>null\<close>. On strings only, it is \<open>analyzeSample\<close>. With a \<^verbatim>\<open>null\<close> entry,
  \<^verbatim>\<open>img.split\<close> throws a TypeError inside \<^verbatim>\<open>images.map\<close>, before any request is made. The
  message of that error is the engine's (here as V8 words it) and not text of the
  repository.
\<close>

definition TypeError_split_of_null :: js_error where
  "TypeError_split_of_null =
     Error (Some (''Cannot read properties of null (reading '' @ [CHR 0x27] @ ''split'' @
                  [CHR 0x27] @ '')''))"

definition analyzeSample_at_run_time ::
  "(string \<Rightarrow> generate_params \<Rightarrow> js_error + response) \<Rightarrow> (string \<Rightarrow> js_error + json) \<Rightarrow>
   world \<Rightarrow> string option list \<Rightarrow> (js_error + json) \<times> world" where
  "analyzeSample_at_run_time generateContent JSON_parse w entries =
     (case those entries of
        Some images \<Rightarrow> analyzeSample generateContent JSON_parse w images
      | None \<Rightarrow>
          (Inl TypeError_split_of_null,
           w\<lparr>trace := trace w @ [Call_analyzeSample_with_null entries]\<rparr>))"

subsection \<open>The scoring scale of the system instruction\<close>

text \<open>
  The scale as data: each line gives a lower bound, an upper bound (none for the line
  written \<^verbatim>\<open>300+\<close>), a level and a score out of ten.
\<close>

record band =
  lo :: nat
  hi :: "nat option"
  level :: string
  score :: nat

definition scoring_scale :: "band list" where
  "scoring_scale =
    [\<lparr>lo = 0, hi = Some 10, level = ''CLEAN'', score = 1\<rparr>,
     \<lparr>lo = 11, hi = Some 50, level = ''LOW CONTAMINATION'', score = 3\<rparr>,
     \<lparr>lo = 51, hi = Some 150, level = ''MODERATE CONTAMINATION'', score = 5\<rparr>,
     \<lparr>lo = 151, hi = Some 300, level = ''HIGH CONTAMINATION'', score = 7\<rparr>,
     \<lparr>lo = 300, hi = None, level = ''CRITICAL CONTAMINATION'', score = 10\<rparr>]"

text \<open>Decimal digits of a number, and a band written the way the instruction writes it.\<close>

fun digits :: "nat \<Rightarrow> string" where
  "digits n =
     (if n < 10 then [''0123456789'' ! n]
      else digits (n div 10) @ [''0123456789'' ! (n mod 10)])"

definition render_band :: "band \<Rightarrow> string" where
  "render_band b =
     ''- '' @ digits (lo b) @
     (case hi b of Some h \<Rightarrow> en_dash @ digits h | None \<Rightarrow> ''+'') @
     '' particles/L '' @ arrow @ '' '' @ level b @
     '' (Score '' @ digits (score b) @ ''/10)''"

text \<open>
  A line \<^verbatim>\<open>a\<close>--\<^verbatim>\<open>b\<close> covers the values from \<open>a\<close> to \<open>b\<close>, both included; the line
  \<^verbatim>\<open>300+\<close> covers 300 and more. A value of particles per litre is a number, not
  necessarily whole.
\<close>

definition in_band :: "band \<Rightarrow> rat \<Rightarrow> bool" where
  "in_band b v =
     (of_nat (lo b) \<le> v \<and> (case hi b of None \<Rightarrow> True | Some h \<Rightarrow> v \<le> of_nat h))"

text \<open>The levels and scores the scale gives a value: one for each line that covers it.\<close>

definition ratings :: "rat \<Rightarrow> (string \<times> nat) list" where
  "ratings v = map (\<lambda>b. (level b, score b)) (filter (\<lambda>b. in_band b v) scoring_scale)"

section \<open>types.ts\<close>

text \<open>
  The type declarations, as data. Every property of an interface in the file is written
  without \<^verbatim>\<open>?\<close>, so every property is mandatory.
\<close>

datatype ts_type =
    TString
  | TNumber
  | TLiterals "string list"
  | TArray ts_type
  | TObject "(string \<times> ts_type) list"

definition ParticleClassification :: ts_type where
  "ParticleClassification = TObject
    [(''type'', TString),
     (''count'', TNumber),
     (''colors'', TArray TString),
     (''sizeRange'', TString),
     (''percentage'', TNumber)]"

definition AnalysisResult :: ts_type where
  "AnalysisResult = TObject
    [(''reportId'', TString),
     (''analysisDate'', TString),
     (''detection'', TObject
        [(''totalCount'', TNumber),
         (''confidence'', TLiterals [''High'', ''Medium'', ''Low'']),
         (''reasoning'', TString)]),
     (''classification'', TArray ParticleClassification),
     (''severity'', TObject
        [(''particlesPerLiter'', TNumber),
         (''score'', TNumber),
         (''level'', TString),
         (''calculation'', TString)]),
     (''sources'', TArray (TObject
        [(''source'', TString),
         (''confidence'', TNumber),
         (''reasoning'', TString)])),
     (''healthRisk'', TObject
        [(''marineRisk'', TString),
         (''humanRiskLevel'', TLiterals [''NEGLIGIBLE'', ''LOW'', ''MODERATE'', ''HIGH'', ''CRITICAL'']),
         (''humanRiskSummary'', TString),
         (''highestRiskTypes'', TArray TString),
         (''healthEffects'', TString),
         (''vulnerablePopulations'', TString)]),
     (''remediation'', TObject
        [(''immediate'', TArray TString),
         (''policy'', TArray TString),
         (''community'', TArray TString)]),
     (''fullReportMarkdown'', TString)]"

text \<open>The properties a type declares mandatory at its top level.\<close>

fun mandatory :: "ts_type \<Rightarrow> string list" where
  "mandatory (TObject members) = map fst members"
| "mandatory _ = []"

text \<open>The properties a schema marks required at its top level.\<close>

fun required :: "schema \<Rightarrow> string list" where
  "required (OBJECT props (Some names)) = names"
| "required _ = []"

text \<open>A value is of a type: every declared property is there and is of its type.\<close>

fun well_typed :: "ts_type \<Rightarrow> json \<Rightarrow> bool"
  and well_typed_fields :: "(string \<times> ts_type) list \<Rightarrow> (string \<times> json) list \<Rightarrow> bool" where
  "well_typed TString j = (case j of JString _ \<Rightarrow> True | _ \<Rightarrow> False)"
| "well_typed TNumber j = (case j of JNumber _ \<Rightarrow> True | _ \<Rightarrow> False)"
| "well_typed (TLiterals ls) j = (case j of JString s \<Rightarrow> s \<in> set ls | _ \<Rightarrow> False)"
| "well_typed (TArray t) j = (case j of JArray xs \<Rightarrow> list_all (well_typed t) xs | _ \<Rightarrow> False)"
| "well_typed (TObject members) j = (case j of JObject kvs \<Rightarrow> well_typed_fields members kvs | _ \<Rightarrow> False)"
| "well_typed_fields [] kvs = True"
| "well_typed_fields ((k, t) # members) kvs =
     ((case map_of kvs k of None \<Rightarrow> False | Some v \<Rightarrow> well_typed t v) \<and>
      well_typed_fields members kvs)"

text \<open>
  A value conforms to a schema: it is of the schema's type, an array's elements conform
  to the item schema, and an object has every required property and each property it
  has conforms to that property's schema.
\<close>

fun conforms :: "schema \<Rightarrow> json \<Rightarrow> bool"
  and conforms_props :: "(string \<times> schema) list \<Rightarrow> (string \<times> json) list \<Rightarrow> bool" where
  "conforms STRING j = (case j of JString _ \<Rightarrow> True | _ \<Rightarrow> False)"
| "conforms NUMBER j = (case j of JNumber _ \<Rightarrow> True | _ \<Rightarrow> False)"
| "conforms (ARRAY s) j = (case j of JArray xs \<Rightarrow> list_all (conforms s) xs | _ \<Rightarrow> False)"
| "conforms (OBJECT props req) j =
     (case j of
        JObject kvs \<Rightarrow>
          list_all (\<lambda>k. map_of kvs k \<noteq> None) (required (OBJECT props req)) \<and>
          conforms_props props kvs
      | _ \<Rightarrow> False)"
| "conforms_props [] kvs = True"
| "conforms_props ((k, s) # props) kvs =
     ((case map_of kvs k of None \<Rightarrow> True | Some v \<Rightarrow> conforms s v) \<and>
      conforms_props props kvs)"

text \<open>
  The schema marks required exactly what the type declares mandatory, at every level of
  nesting: at each object the two lists hold the same names, and so on inside each
  property and each array's items.
\<close>

fun required_agrees :: "schema \<Rightarrow> ts_type \<Rightarrow> bool"
  and required_agrees_props :: "(string \<times> schema) list \<Rightarrow> (string \<times> ts_type) list \<Rightarrow> bool" where
  "required_agrees (OBJECT props req) t =
     (set (required (OBJECT props req)) = set (mandatory t) \<and>
      (case t of TObject members \<Rightarrow> required_agrees_props props members | _ \<Rightarrow> True))"
| "required_agrees (ARRAY s) t = (case t of TArray u \<Rightarrow> required_agrees s u | _ \<Rightarrow> True)"
| "required_agrees STRING t = True"
| "required_agrees NUMBER t = True"
| "required_agrees_props [] members = True"
| "required_agrees_props ((k, s) # props) members =
     ((case map_of members k of None \<Rightarrow> True | Some t \<Rightarrow> required_agrees s t) \<and>
      required_agrees_props props members)"

section \<open>App.tsx\<close>

text \<open>
  The component's state: one field for each \<^verbatim>\<open>useState\<close>. The values are those the
  state holds at run time: an entry of \<open>images\<close> is a string, or \<^verbatim>\<open>null\<close> (\<open>None\<close>) after a
  failed read, and \<open>result\<close> is a parsed report, or \<^verbatim>\<open>null\<close> (\<open>JNull\<close>).
\<close>

record app_state =
  images :: "string option list"
  isAnalyzing :: bool
  result :: json
  error :: "string option"
  loadingMessage :: string

definition initial_state :: app_state where
  "initial_state =
     \<lparr>images = [], isAnalyzing = False, result = JNull, error = None,
      loadingMessage = ''Initializing scan...''\<rparr>"

text \<open>
  One file reader has finished: \<^verbatim>\<open>setImages(prev => [...prev, reader.result as string])\<close>.
  The handler is \<^verbatim>\<open>onloadend\<close>, which runs after a read that succeeded and after one that
  failed; \<^verbatim>\<open>reader.result\<close> is the data URL after a success and \<^verbatim>\<open>null\<close> after a failure,
  and the cast does nothing at run time.
\<close>

definition onloadend :: "string option \<Rightarrow> app_state \<Rightarrow> app_state" where
  "onloadend reader_result s = s\<lparr>images := images s @ [reader_result]\<rparr>"

text \<open>
  \<open>handleImageUpload\<close> starts one reader for each selected file (no files when the
  input's file list is null). The readers finish in an order the code does not control:
  \<open>finish\<close> gives that order. \<open>readAsDataURL\<close> is the browser's read of a file: it gives
  the reader's result once the read has ended, the data URL or, when the read failed,
  \<^verbatim>\<open>null\<close>.
\<close>

definition handleImageUpload ::
  "('f \<Rightarrow> string option) \<Rightarrow> ('f list \<Rightarrow> 'f list) \<Rightarrow> 'f list option \<Rightarrow> app_state \<Rightarrow>
   app_state" where
  "handleImageUpload readAsDataURL finish target_files s =
     (let files = (case target_files of None \<Rightarrow> [] | Some fs \<Rightarrow> fs)
      in fold (\<lambda>file. onloadend (readAsDataURL file)) (finish files) s)"

text \<open>\<^verbatim>\<open>prev.filter((_, i) => i !== index)\<close>\<close>

definition removeImage :: "nat \<Rightarrow> app_state \<Rightarrow> app_state" where
  "removeImage index s =
     s\<lparr>images := map fst (filter (\<lambda>(_, i). i \<noteq> index) (zip (images s) [0..<length (images s)]))\<rparr>"

definition reset :: "app_state \<Rightarrow> app_state" where
  "reset s = s\<lparr>images := [], result := JNull, error := None\<rparr>"

text \<open>
  \<open>handleAnalyze\<close>, from the click to the end of its \<^verbatim>\<open>finally\<close> block, with no other
  handler running in between. It returns the component's state and the environment.
\<close>

definition handleAnalyze ::
  "(string \<Rightarrow> generate_params \<Rightarrow> js_error + response) \<Rightarrow> (string \<Rightarrow> js_error + json) \<Rightarrow>
   world \<Rightarrow> app_state \<Rightarrow> app_state \<times> world" where
  "handleAnalyze generateContent JSON_parse w s =
     (if length (images s) = 0
      then (s\<lparr>error := Some ''Please upload at least one microscope image.''\<rparr>, w)
      else
        (let s1 = s\<lparr>isAnalyzing := True, error := None\<rparr>
         in case analyzeSample_at_run_time generateContent JSON_parse w (images s) of
              (Inr report, w') \<Rightarrow> (s1\<lparr>result := report, isAnalyzing := False\<rparr>, w')
            | (Inl err, w') \<Rightarrow>
                (s1\<lparr>error := Some (or_else (message err) ''An error occurred during analysis.''),
                    isAnalyzing := False\<rparr>, w')))"

text \<open>What the page shows: the slot counter, and whether the Run Analysis button is disabled.\<close>

definition slots_label :: "app_state \<Rightarrow> string" where
  "slots_label s = digits (length (images s)) @ ''/5 Slots''"

definition run_analysis_disabled :: "app_state \<Rightarrow> bool" where
  "run_analysis_disabled s = (isAnalyzing s \<or> length (images s) = 0)"

text \<open>The arguments of the calls of \<open>analyzeSample\<close> in a trace, in order.\<close>

fun analyzeSample_calls :: "event list \<Rightarrow> string option list list" where
  "analyzeSample_calls [] = []"
| "analyzeSample_calls (Call_analyzeSample imgs # es) = map Some imgs # analyzeSample_calls es"
| "analyzeSample_calls (Call_analyzeSample_with_null entries # es) =
     entries # analyzeSample_calls es"
| "analyzeSample_calls (Call_generateContent k p # es) = analyzeSample_calls es"

text \<open>The requests of the calls of \<open>generateContent\<close> in a trace, in order.\<close>

fun generateContent_calls :: "event list \<Rightarrow> generate_params list" where
  "generateContent_calls [] = []"
| "generateContent_calls (Call_analyzeSample imgs # es) = generateContent_calls es"
| "generateContent_calls (Call_analyzeSample_with_null entries # es) = generateContent_calls es"
| "generateContent_calls (Call_generateContent k p # es) = p # generateContent_calls es"

text \<open>The events an operation added to the trace.\<close>

definition new_events :: "world \<Rightarrow> world \<Rightarrow> event list" where
  "new_events w w' = drop (length (trace w)) (trace w')"

section \<open>Notions the properties are stated with\<close>

text \<open>The portion of a string after its first comma (empty when it has none).\<close>

definition after_first_comma :: "string \<Rightarrow> string" where
  "after_first_comma s = tl (dropWhile (\<lambda>x. x \<noteq> CHR '','') s)"

text \<open>\<^verbatim>\<open>k in j\<close> for a parsed value: only an object has properties.\<close>

fun has_property :: "json \<Rightarrow> string \<Rightarrow> bool" where
  "has_property (JObject kvs) k = (map_of kvs k \<noteq> None)"
| "has_property _ k = False"

text \<open>The environment after a series of invocations of \<open>analyzeSample\<close>, one after the other.\<close>

fun earlier_invocations ::
  "(string \<Rightarrow> generate_params \<Rightarrow> js_error + response) \<Rightarrow> (string \<Rightarrow> js_error + json) \<Rightarrow>
   world \<Rightarrow> string list list \<Rightarrow> world" where
  "earlier_invocations g p w [] = w"
| "earlier_invocations g p w (imgs # rest) =
     earlier_invocations g p (snd (analyzeSample g p w imgs)) rest"

section \<open>Sample inputs\<close>

text \<open>
  Concrete environments and values for the examples below: a remote model that answers
  with a given text, one that fails, \<^verbatim>\<open>JSON.parse\<close> on the three texts the examples use, a
  fresh environment and one with a call behind it.
\<close>

definition answering :: "string option \<Rightarrow> string \<Rightarrow> generate_params \<Rightarrow> js_error + response" where
  "answering t apiKey params = Inr \<lparr>response_text = t\<rparr>"

definition failing :: "string \<Rightarrow> generate_params \<Rightarrow> js_error + response" where
  "failing apiKey params = Inl (Error (Some ''fetch failed''))"

definition parse_sample :: "string \<Rightarrow> js_error + json" where
  "parse_sample s =
     (if s = ''{}'' then Inr (JObject [])
      else if s = ''[]'' then Inr (JArray [])
      else if s = ''null'' then Inr JNull
      else Inl (Error (Some ''Unexpected token'')))"

definition empty_world :: world where
  "empty_world = \<lparr>GEMINI_API_KEY = None, trace = []\<rparr>"

definition used_world :: world where
  "used_world =
     \<lparr>GEMINI_API_KEY = Some ''key'',
      trace = [Call_analyzeSample [''x,y''],
               Call_generateContent ''key'' (analyzeSample_params [''x,y''])]\<rparr>"

text \<open>The reader on numbered files: the read of file 0 fails, every other read succeeds.\<close>

definition read_sample :: "nat \<Rightarrow> string option" where
  "read_sample file = (if file = 0 then None else Some (''data:,'' @ digits file))"

text \<open>A report with every property of \<open>AnalysisResult\<close>.\<close>

definition sample_report :: json where
  "sample_report = JObject
    [(''reportId'', JString ''MS-0001''),
     (''analysisDate'', JString ''2025-01-01''),
     (''detection'', JObject
        [(''totalCount'', JNumber 12),
         (''confidence'', JString ''High''),
         (''reasoning'', JString ''Twelve fibres counted.'')]),
     (''classification'', JArray
        [JObject
          [(''type'', JString ''fiber''),
           (''count'', JNumber 12),
           (''colors'', JArray [JString ''blue'']),
           (''sizeRange'', JString ''0.1-1mm''),
           (''percentage'', JNumber 100)]]),
     (''severity'', JObject
        [(''particlesPerLiter'', JNumber 12),
         (''score'', JNumber 3),
         (''level'', JString ''LOW CONTAMINATION''),
         (''calculation'', JString ''12 particles in 1L'')]),
     (''sources'', JArray
        [JObject
          [(''source'', JString ''Textiles''),
           (''confidence'', JNumber 80),
           (''reasoning'', JString ''Fibres'')]]),
     (''healthRisk'', JObject
        [(''marineRisk'', JString ''Low''),
         (''humanRiskLevel'', JString ''LOW''),
         (''humanRiskSummary'', JString ''Low''),
         (''highestRiskTypes'', JArray [JString ''fiber'']),
         (''healthEffects'', JString ''None known''),
         (''vulnerablePopulations'', JString ''None'')]),
     (''remediation'', JObject
        [(''immediate'', JArray []),
         (''policy'', JArray []),
         (''community'', JArray [])]),
     (''fullReportMarkdown'', JString ''# Report'')]"

text \<open>The same report, but its \<^verbatim>\<open>severity\<close> is the object with no property.\<close>

definition report_with_empty_severity :: json where
  "report_with_empty_severity = JObject
    [(''reportId'', JString ''MS-0001''),
     (''analysisDate'', JString ''2025-01-01''),
     (''detection'', JObject
        [(''totalCount'', JNumber 12),
         (''confidence'', JString ''High''),
         (''reasoning'', JString ''Twelve fibres counted.'')]),
     (''classification'', JArray
        [JObject
          [(''type'', JString ''fiber''),
           (''count'', JNumber 12),
           (''colors'', JArray [JString ''blue'']),
           (''sizeRange'', JString ''0.1-1mm''),
           (''percentage'', JNumber 100)]]),
     (''severity'', JObject []),
     (''sources'', JArray
        [JObject
          [(''source'', JString ''Textiles''),
           (''confidence'', JNumber 80),
           (''reasoning'', JString ''Fibres'')]]),
     (''healthRisk'', JObject
        [(''marineRisk'', JString ''Low''),
         (''humanRiskLevel'', JString ''LOW''),
         (''humanRiskSummary'', JString ''Low''),
         (''highestRiskTypes'', JArray [JString ''fiber'']),
         (''healthEffects'', JString ''None known''),
         (''vulnerablePopulations'', JString ''None'')]),
     (''remediation'', JObject
        [(''immediate'', JArray []),
         (''policy'', JArray []),
         (''community'', JArray [])]),
     (''fullReportMarkdown'', JString ''# Report'')]"

section \<open>Facts about the operations\<close>

subsection \<open>Splitting at a separator\<close>

lemma str_split_no_sep: "c \<notin> set s \<Longrightarrow> str_split c s = [s]"
  by (induction s) (auto split: list.splits)

lemma str_split_append: "c \<notin> set p \<Longrightarrow> str_split c (p @ c # r) = p # str_split c r"
  by (induction p) (auto split: list.splits)

lemma str_split_not_Nil: "str_split c s \<noteq> []"
  by (induction s) (auto split: list.splits)

lemma hd_str_split: "hd (str_split c s) = takeWhile (\<lambda>x. x \<noteq> c) s"
  by (induction s) (auto simp: str_split_not_Nil split: list.splits)

text \<open>The second field: what follows the first separator, up to the next one.\<close>

lemma second_field:
  "at_index (str_split c s) (Suc 0) =
     (if c \<in> set s
      then Some (takeWhile (\<lambda>x. x \<noteq> c) (tl (dropWhile (\<lambda>x. x \<noteq> c) s)))
      else None)"
proof (cases "c \<in> set s")
  case False
  then show ?thesis by (simp add: str_split_no_sep at_index_def)
next
  case True
  then obtain p r where s: "s = p @ c # r" and p: "c \<notin> set p"
    by (meson split_list_first)
  have d: "dropWhile (\<lambda>x. x \<noteq> c) s = c # r"
    using s p by (auto simp: dropWhile_append3)
  have "str_split c s = p # str_split c r"
    using s p by (simp add: str_split_append)
  then have "at_index (str_split c s) (Suc 0) = Some (hd (str_split c r))"
    using str_split_not_Nil [of c r] by (cases "str_split c r") (simp_all add: at_index_def)
  then show ?thesis using True d by (simp add: hd_str_split)
qed

text \<open>With exactly one separator, nothing is cut off after it.\<close>

lemma one_sep:
  assumes "count_list s c = 1"
  shows "c \<in> set s \<and>
    takeWhile (\<lambda>x. x \<noteq> c) (tl (dropWhile (\<lambda>x. x \<noteq> c) s)) = tl (dropWhile (\<lambda>x. x \<noteq> c) s)"
proof -
  have m: "c \<in> set s" using assms by (metis count_list_0_iff zero_neq_one)
  then obtain p r where s: "s = p @ c # r" and p: "c \<notin> set p"
    by (meson split_list_first)
  have d: "dropWhile (\<lambda>x. x \<noteq> c) s = c # r"
    using s p by (auto simp: dropWhile_append3)
  have "count_list p c = 0" using p by (simp add: count_list_0_iff)
  then have "count_list r c = 0" using assms s by simp
  then have "c \<notin> set r" by (simp add: count_list_0_iff)
  then show ?thesis using d m by (auto simp: takeWhile_eq_all_conv)
qed

subsection \<open>One invocation of \<open>analyzeSample\<close>\<close>

lemma analyzeSample_world:
  "snd (analyzeSample g p w imgs) =
     w\<lparr>trace := trace w @ [Call_analyzeSample imgs,
          Call_generateContent (or_else (GEMINI_API_KEY w) []) (analyzeSample_params imgs)]\<rparr>"
  by (simp add: analyzeSample_def Let_def split: sum.splits)

lemma analyzeSample_new_events:
  "new_events w (snd (analyzeSample g p w imgs)) =
     [Call_analyzeSample imgs,
      Call_generateContent (or_else (GEMINI_API_KEY w) []) (analyzeSample_params imgs)]"
  by (simp add: analyzeSample_world new_events_def)

lemma analyzeSample_result:
  "fst (analyzeSample g p w imgs) =
     (case g (or_else (GEMINI_API_KEY w) []) (analyzeSample_params imgs) of
        Inl err \<Rightarrow> Inl err
      | Inr r \<Rightarrow> p (or_else (response_text r) ''{}''))"
  by (simp add: analyzeSample_def Let_def split: sum.splits)

lemma earlier_invocations_key:
  "GEMINI_API_KEY (earlier_invocations g p w history) = GEMINI_API_KEY w"
  by (induction history arbitrary: w) (simp_all add: analyzeSample_world)

subsection \<open>The handlers\<close>

lemma those_Some_map: "those xs = Some ys \<Longrightarrow> map Some ys = xs"
  by (induction xs arbitrary: ys) (auto split: option.splits)

lemma analyzeSample_at_run_time_calls:
  "analyzeSample_calls (new_events w (snd (analyzeSample_at_run_time g p w entries))) = [entries]"
proof (cases "those entries")
  case None
  then show ?thesis
    by (simp add: analyzeSample_at_run_time_def new_events_def)
next
  case (Some imgs)
  then show ?thesis
    by (simp add: analyzeSample_at_run_time_def analyzeSample_new_events those_Some_map)
qed

lemma handleAnalyze_calls:
  "analyzeSample_calls (new_events w (snd (handleAnalyze g p w s))) =
     (if images s = [] then [] else [images s])"
proof (cases "images s = []")
  case True
  then show ?thesis by (simp add: handleAnalyze_def new_events_def)
next
  case False
  have "snd (handleAnalyze g p w s) = snd (analyzeSample_at_run_time g p w (images s))"
    using False by (simp add: handleAnalyze_def Let_def split: prod.splits sum.splits)
  then show ?thesis using False by (simp add: analyzeSample_at_run_time_calls)
qed

lemma fold_onloadend:
  "fold (\<lambda>file. onloadend (rd file)) fs s = s\<lparr>images := images s @ map rd fs\<rparr>"
  by (induction fs arbitrary: s) (simp_all add: onloadend_def)

lemma handleImageUpload_eq:
  "handleImageUpload rd finish (Some files) s = s\<lparr>images := images s @ map rd (finish files)\<rparr>"
  by (simp add: handleImageUpload_def fold_onloadend)

text \<open>
  Whatever the reads give, and in whatever order they end: the earlier images are the
  first images afterwards, unchanged, the entries after them are the results of the reads
  of the selected files, and nothing else of the state changes.
\<close>

lemma handleImageUpload_frame:
  assumes "\<forall>fs. mset (finish fs) = mset fs"
  shows "take (length (images s)) (images (handleImageUpload rd finish (Some files) s)) = images s \<and>
    mset (drop (length (images s)) (images (handleImageUpload rd finish (Some files) s))) =
      mset (map rd files) \<and>
    handleImageUpload rd finish (Some files) s = s\<lparr>images := images s @ map rd (finish files)\<rparr> \<and>
    handleImageUpload rd finish None s = s"
proof -
  have "mset (finish []) = mset []"
    using assms by blast
  then have "finish [] = []"
    by simp
  then show ?thesis
    using assms by (simp add: handleImageUpload_def fold_onloadend)
qed

subsection \<open>The scale and the schema\<close>

text \<open>The five lines of the instruction are the five bands, written out.\<close>

lemma SYSTEM_INSTRUCTION_scale_bands:
  "SYSTEM_INSTRUCTION_scale = concat (map (\<lambda>b. line (render_band b)) scoring_scale)"
  by (simp add: SYSTEM_INSTRUCTION_scale_def scoring_scale_def render_band_def line_def
      en_dash_def arrow_def)

lemma scores_between_1_and_10:
  "list_all (\<lambda>b. 1 \<le> score b \<and> score b \<le> 10) scoring_scale"
  by (simp add: scoring_scale_def)

lemma ratings_whole_number: "n \<noteq> 300 \<Longrightarrow> length (ratings (of_nat n)) = 1"
  by (simp add: ratings_def scoring_scale_def in_band_def)

lemma ratings_between_lines: "ratings (21 / 2) = []"
  by (simp add: ratings_def scoring_scale_def in_band_def)

lemma sample_report_ok:
  "conforms analysis_schema sample_report \<and> well_typed AnalysisResult sample_report"
  by (simp add: analysis_schema_def sample_report_def AnalysisResult_def
      ParticleClassification_def)

lemma required_agrees_top_level:
  "set (required analysis_schema) = set (mandatory AnalysisResult)"
  by (simp add: analysis_schema_def AnalysisResult_def)

section \<open>The properties\<close>

text \<open>
  C1. For every pair of image lists, each run of \<open>analyzeSample\<close> makes one
  \<open>generateContent\<close> call, and the two calls get the same model name
  \<^verbatim>\<open>gemini-3-flash-preview\<close>, the same configuration (system instruction, response MIME
  type and response schema) and the same prompt text as the last part; the parts before
  it are the image parts of the run's own input.
\<close>

theorem analyzeSample_request_fixed:
  "generateContent_calls (new_events w1 (snd (analyzeSample g1 p1 w1 images1))) =
     [analyzeSample_params images1] \<and>
   generateContent_calls (new_events w2 (snd (analyzeSample g2 p2 w2 images2))) =
     [analyzeSample_params images2] \<and>
   model (analyzeSample_params images1) = ''gemini-3-flash-preview'' \<and>
   model (analyzeSample_params images2) = ''gemini-3-flash-preview'' \<and>
   config (analyzeSample_params images1) = config (analyzeSample_params images2) \<and>
   systemInstruction (config (analyzeSample_params images1)) = SYSTEM_INSTRUCTION \<and>
   responseSchema (config (analyzeSample_params images1)) = analysis_schema \<and>
   parts (analyzeSample_params images1) = imageParts images1 @ [TextPart prompt] \<and>
   parts (analyzeSample_params images2) = imageParts images2 @ [TextPart prompt]"
  by (simp add: analyzeSample_new_events analyzeSample_params_def)

text \<open>
  C2. The specification states that the scoring scale gives every non-negative value of
  particles per litre exactly one level and one score. The five lines of the instruction
  are the five bands, and at 300 they give two ratings: the line \<^verbatim>\<open>151-300\<close> rates it
  HIGH CONTAMINATION with score 7 and the line \<^verbatim>\<open>300+\<close> rates it CRITICAL CONTAMINATION
  with score 10.
\<close>

theorem scoring_scale_two_ratings_at_300:
  "SYSTEM_INSTRUCTION_scale = concat (map (\<lambda>b. line (render_band b)) scoring_scale) \<and>
   ratings 300 = [(''HIGH CONTAMINATION'', 7), (''CRITICAL CONTAMINATION'', 10)]"
proof -
  have "ratings 300 = [(''HIGH CONTAMINATION'', 7), (''CRITICAL CONTAMINATION'', 10)]"
    by (simp add: ratings_def scoring_scale_def in_band_def)
  then show ?thesis
    by (simp add: SYSTEM_INSTRUCTION_scale_bands)
qed

text \<open>
  C3, as the code has it. An invocation of \<open>analyzeSample\<close> with a non-empty image list
  makes exactly one \<open>generateContent\<close> call. Its parts are, for each image in the given
  order, an inline-data part with MIME type \<^verbatim>\<open>image/jpeg\<close> whose data is the portion of
  the image string after its first comma up to its next comma (up to the end when there
  is no other comma; undefined when the string has no comma at all), followed by the
  single text part with the prompt. When every image string has exactly one comma, the
  data of each part is the whole portion after that comma.
\<close>

theorem analyzeSample_one_call_parts:
  assumes "imgs \<noteq> []"
  shows "map parts (generateContent_calls (new_events w (snd (analyzeSample g p w imgs)))) =
      [map (\<lambda>img. InlineData ''image/jpeg''
              (if CHR '','' \<in> set img
               then Some (takeWhile (\<lambda>x. x \<noteq> CHR '','') (after_first_comma img))
               else None)) imgs
       @ [TextPart prompt]] \<and>
    (list_all (\<lambda>img. count_list img CHR '','' = 1) imgs \<longrightarrow>
     map parts (generateContent_calls (new_events w (snd (analyzeSample g p w imgs)))) =
      [map (\<lambda>img. InlineData ''image/jpeg'' (Some (after_first_comma img))) imgs
       @ [TextPart prompt]])"
proof -
  have one: "map parts (generateContent_calls (new_events w (snd (analyzeSample g p w imgs)))) =
      [map (\<lambda>img. InlineData ''image/jpeg''
              (if CHR '','' \<in> set img
               then Some (takeWhile (\<lambda>x. x \<noteq> CHR '','') (after_first_comma img))
               else None)) imgs
       @ [TextPart prompt]]"
    by (simp add: analyzeSample_new_events analyzeSample_params_def imageParts_def
        second_field after_first_comma_def)
  have "map (\<lambda>img. InlineData ''image/jpeg''
              (if CHR '','' \<in> set img
               then Some (takeWhile (\<lambda>x. x \<noteq> CHR '','') (after_first_comma img))
               else None)) imgs =
        map (\<lambda>img. InlineData ''image/jpeg'' (Some (after_first_comma img))) imgs"
    if "list_all (\<lambda>img. count_list img CHR '','' = 1) imgs"
    using that one_sep [of _ "CHR '',''"]
    by (auto simp: list_all_iff after_first_comma_def)
  with one show ?thesis by simp
qed

theorem analyzeSample_one_call_parts_witness:
  "map parts (generateContent_calls (new_events empty_world
      (snd (analyzeSample failing parse_sample empty_world
             [''data:image/png;base64,AAAA'', ''a,b,c'', ''none''])))) =
     [[InlineData ''image/jpeg'' (Some ''AAAA''), InlineData ''image/jpeg'' (Some ''b''),
       InlineData ''image/jpeg'' None, TextPart prompt]] \<and>
   map parts (generateContent_calls (new_events empty_world
      (snd (analyzeSample failing parse_sample empty_world
             [''data:image/png;base64,AAAA''])))) =
     [[InlineData ''image/jpeg'' (Some ''AAAA''), TextPart prompt]]"
  using analyzeSample_one_call_parts
      [of "[''data:image/png;base64,AAAA'', ''a,b,c'', ''none'']" empty_world failing parse_sample]
    analyzeSample_one_call_parts
      [of "[''data:image/png;base64,AAAA'']" empty_world failing parse_sample]
  by (simp add: after_first_comma_def)

text \<open>
  With the data being the whole portion after the first comma, the statement fails on an
  image string with two commas: the data of the part is only what stands between them.
\<close>

theorem analyzeSample_data_not_after_first_comma:
  "map parts (generateContent_calls (new_events empty_world
      (snd (analyzeSample failing parse_sample empty_world [''a,b,c''])))) \<noteq>
     [map (\<lambda>img. InlineData ''image/jpeg'' (Some (after_first_comma img))) [''a,b,c'']
      @ [TextPart prompt]]"
  by (simp add: analyzeSample_new_events analyzeSample_params_def imageParts_def
      at_index_def after_first_comma_def)

text \<open>
  C4. When the model answers and the text of its response is a non-empty string \<open>t\<close>,
  \<open>analyzeSample\<close> returns exactly what \<^verbatim>\<open>JSON.parse\<close> gives for \<open>t\<close>: the parsed value,
  with nothing added, removed or changed (and the parser's error when \<open>t\<close> does not parse).
\<close>

theorem analyzeSample_returns_parsed_text:
  assumes "generateContent (or_else (GEMINI_API_KEY w) []) (analyzeSample_params imgs) = Inr r"
    and "response_text r = Some t"
    and "t \<noteq> []"
  shows "fst (analyzeSample generateContent JSON_parse w imgs) = JSON_parse t"
  using assms by (simp add: analyzeSample_result or_else_def)

theorem analyzeSample_returns_parsed_text_witness:
  "fst (analyzeSample (answering (Some ''[]'')) parse_sample empty_world
         [''data:image/png;base64,AAAA'']) = Inr (JArray [])"
  using analyzeSample_returns_parsed_text
      [of "answering (Some ''[]'')" empty_world "[''data:image/png;base64,AAAA'']"
          "\<lparr>response_text = Some ''[]''\<rparr>" "''[]''" parse_sample]
  by (simp add: answering_def parse_sample_def)

text \<open>
  C5. The specification states that the response schema marks required exactly the
  properties the type \<open>AnalysisResult\<close> declares mandatory, at every level of nesting, so that a response
  that conforms to the schema is a well-formed \<open>AnalysisResult\<close>. The schema gives a
  \<^verbatim>\<open>required\<close> list at the top level and for \<^verbatim>\<open>detection\<close> only: a report whose
  \<^verbatim>\<open>severity\<close> is the empty object conforms to the schema and is not of the type.
\<close>

theorem schema_required_misses_nested:
  "conforms analysis_schema report_with_empty_severity \<and>
   \<not> well_typed AnalysisResult report_with_empty_severity \<and>
   \<not> required_agrees analysis_schema AnalysisResult"
  by (simp add: analysis_schema_def report_with_empty_severity_def AnalysisResult_def
      ParticleClassification_def)

text \<open>
  C6. When the model answers and the text of its response is undefined or the empty
  string, \<open>analyzeSample\<close> parses the text \<^verbatim>\<open>{}\<close> instead and returns the empty object,
  without raising an error. The empty object has none of the nine properties
  \<open>AnalysisResult\<close> requires and is not of that type. (\<^verbatim>\<open>JSON.parse\<close> is a parameter here;
  that it turns \<^verbatim>\<open>{}\<close> into the empty object is what the language defines.)
\<close>

theorem analyzeSample_empty_text_gives_empty_object:
  assumes "generateContent (or_else (GEMINI_API_KEY w) []) (analyzeSample_params imgs) = Inr r"
    and "response_text r = None \<or> response_text r = Some []"
    and "JSON_parse ''{}'' = Inr (JObject [])"
  shows "fst (analyzeSample generateContent JSON_parse w imgs) = Inr (JObject []) \<and>
    list_all (\<lambda>k. \<not> has_property (JObject []) k) (mandatory AnalysisResult) \<and>
    length (mandatory AnalysisResult) = 9 \<and>
    \<not> well_typed AnalysisResult (JObject [])"
proof -
  have "or_else (response_text r) ''{}'' = ''{}''"
    using assms(2) by (auto simp: or_else_def)
  then have "fst (analyzeSample generateContent JSON_parse w imgs) = Inr (JObject [])"
    using assms(1,3) by (simp add: analyzeSample_result)
  moreover have "list_all (\<lambda>k. \<not> has_property (JObject []) k) (mandatory AnalysisResult)"
    by (simp add: list_all_iff)
  moreover have "length (mandatory AnalysisResult) = 9"
    and "\<not> well_typed AnalysisResult (JObject [])"
    by (simp_all add: AnalysisResult_def)
  ultimately show ?thesis by simp
qed

theorem analyzeSample_empty_text_gives_empty_object_witness:
  "fst (analyzeSample (answering None) parse_sample empty_world
         [''data:image/png;base64,AAAA'']) = Inr (JObject []) \<and>
   fst (analyzeSample (answering (Some [])) parse_sample empty_world
         [''data:image/png;base64,AAAA'']) = Inr (JObject [])"
  using analyzeSample_empty_text_gives_empty_object
      [of "answering None" empty_world "[''data:image/png;base64,AAAA'']"
          "\<lparr>response_text = None\<rparr>" parse_sample]
    analyzeSample_empty_text_gives_empty_object
      [of "answering (Some [])" empty_world "[''data:image/png;base64,AAAA'']"
          "\<lparr>response_text = Some []\<rparr>" parse_sample]
  by (simp add: answering_def parse_sample_def)

text \<open>
  C7. When the images list is empty, \<open>handleAnalyze\<close> sets the error to
  \<^verbatim>\<open>Please upload at least one microscope image.\<close> and returns: nothing else of the state
  changes (so \<open>isAnalyzing\<close> and \<open>result\<close> are as before), the environment is as before and
  \<open>analyzeSample\<close> is not called. With an empty images list the Run Analysis button is
  disabled.
\<close>

theorem handleAnalyze_no_images:
  assumes "images s = []"
  shows "handleAnalyze g p w s =
      (s\<lparr>error := Some ''Please upload at least one microscope image.''\<rparr>, w) \<and>
    analyzeSample_calls (new_events w (snd (handleAnalyze g p w s))) = [] \<and>
    isAnalyzing (fst (handleAnalyze g p w s)) = isAnalyzing s \<and>
    result (fst (handleAnalyze g p w s)) = result s \<and>
    run_analysis_disabled s"
  using assms by (simp add: handleAnalyze_def new_events_def run_analysis_disabled_def)

theorem handleAnalyze_no_images_witness:
  "handleAnalyze failing parse_sample empty_world initial_state =
     (initial_state\<lparr>error := Some ''Please upload at least one microscope image.''\<rparr>,
      empty_world) \<and>
   run_analysis_disabled initial_state"
  using handleAnalyze_no_images [of initial_state failing parse_sample empty_world]
  by (simp add: initial_state_def)

text \<open>
  C8. The specification states that \<open>handleImageUpload\<close> converts each selected file to a
  data URL and appends it to the images list, every earlier image staying as it is and
  where it is. The handler of a reader runs after a failed read as well and appends the
  reader's result, which is then \<^verbatim>\<open>null\<close>. With two images in the state and the files 0
  and 3 selected, the read of file 0 failing, the list afterwards holds the two images
  as before, the data URL of file 3, and \<^verbatim>\<open>null\<close> for file 0.
\<close>

theorem handleImageUpload_failed_read_appends_null:
  "read_sample 0 = None \<and>
   images (handleImageUpload read_sample rev (Some [0, 3])
      (initial_state\<lparr>images := [Some ''data:,1'', Some ''data:,2'']\<rparr>)) =
     [Some ''data:,1'', Some ''data:,2'', Some ''data:,3'', None]"
  by (simp add: handleImageUpload_def onloadend_def read_sample_def)

text \<open>
  C9. No operation enforces the five slots the page displays. Uploading \<open>k\<close> files to a
  state that holds \<open>n\<close> images gives \<open>n + k\<close> images, the slot counter then reads
  \<open>n + k\<close> followed by \<^verbatim>\<open>/5 Slots\<close>, and when \<open>n + k\<close> is more than five \<open>handleAnalyze\<close> calls
  \<open>analyzeSample\<close> once, with all of them.
\<close>

theorem no_five_image_limit:
  assumes "mset (finish files) = mset files"
  shows "length (images (handleImageUpload rd finish (Some files) s)) =
      length (images s) + length files \<and>
    slots_label (handleImageUpload rd finish (Some files) s) =
      digits (length (images s) + length files) @ ''/5 Slots'' \<and>
    (5 < length (images s) + length files \<longrightarrow>
       analyzeSample_calls (new_events w
          (snd (handleAnalyze g p w (handleImageUpload rd finish (Some files) s)))) =
         [images s @ map rd (finish files)])"
proof -
  have "length (finish files) = length files"
    using assms by (metis size_mset)
  then show ?thesis
    by (auto simp: handleImageUpload_eq slots_label_def handleAnalyze_calls
        simp del: digits.simps)
qed

theorem no_five_image_limit_witness:
  "length (images (handleImageUpload read_sample rev (Some [3, 4, 5, 6])
      (initial_state\<lparr>images := [Some ''data:,1'', Some ''data:,2'']\<rparr>))) = 6 \<and>
   slots_label (handleImageUpload read_sample rev (Some [3, 4, 5, 6])
      (initial_state\<lparr>images := [Some ''data:,1'', Some ''data:,2'']\<rparr>)) = ''6/5 Slots'' \<and>
   analyzeSample_calls (new_events empty_world (snd (handleAnalyze failing parse_sample empty_world
      (handleImageUpload read_sample rev (Some [3, 4, 5, 6])
         (initial_state\<lparr>images := [Some ''data:,1'', Some ''data:,2'']\<rparr>))))) =
     [[Some ''data:,1'', Some ''data:,2'', Some ''data:,6'', Some ''data:,5'',
       Some ''data:,4'', Some ''data:,3'']]"
  using no_five_image_limit
      [where finish = rev and files = "[3, 4, 5, 6]" and rd = read_sample and w = empty_world
         and s = "initial_state\<lparr>images := [Some ''data:,1'', Some ''data:,2'']\<rparr>"
         and g = failing and p = parse_sample]
  by (simp add: read_sample_def)

text \<open>
  C10. \<open>analyzeSample\<close> keeps no state across calls. Two invocations with the same images
  whose \<open>generateContent\<close> calls get the same answer return the same result, whatever the
  two environments are; in particular the result after any series of earlier invocations
  is the result without them. An invocation leaves the environment variable as it was
  and adds to the trace only its own call of the remote model.
\<close>

theorem analyzeSample_stateless:
  assumes "g1 (or_else (GEMINI_API_KEY w1) []) (analyzeSample_params imgs) =
           g2 (or_else (GEMINI_API_KEY w2) []) (analyzeSample_params imgs)"
  shows "fst (analyzeSample g1 p w1 imgs) = fst (analyzeSample g2 p w2 imgs) \<and>
    fst (analyzeSample g1 p (earlier_invocations g1 p w1 history) imgs) =
      fst (analyzeSample g1 p w1 imgs) \<and>
    GEMINI_API_KEY (snd (analyzeSample g1 p w1 imgs)) = GEMINI_API_KEY w1 \<and>
    new_events w1 (snd (analyzeSample g1 p w1 imgs)) =
      [Call_analyzeSample imgs,
       Call_generateContent (or_else (GEMINI_API_KEY w1) []) (analyzeSample_params imgs)]"
  using assms
  by (simp add: analyzeSample_result earlier_invocations_key analyzeSample_world
      new_events_def)

theorem analyzeSample_stateless_witness:
  "fst (analyzeSample (answering (Some ''[]'')) parse_sample empty_world [''data:,1'']) =
     Inr (JArray []) \<and>
   fst (analyzeSample (answering (Some ''[]'')) parse_sample used_world [''data:,1'']) =
     Inr (JArray []) \<and>
   fst (analyzeSample (answering (Some ''[]'')) parse_sample
      (earlier_invocations (answering (Some ''[]'')) parse_sample empty_world
         [[''data:,7''], []]) [''data:,1'']) = Inr (JArray [])"
  using analyzeSample_stateless
      [of "answering (Some ''[]'')" empty_world "[''data:,1'']" "answering (Some ''[]'')"
          used_world parse_sample "[[''data:,7''], []]"]
  by (simp add: answering_def analyzeSample_result parse_sample_def or_else_def)

end
